theory Spec2Isabelle
  imports Main
begin

section \<open>The relational store\<close>

text \<open>
  The handlers talk to the database through parameterised SQL. Each table is a list of
  rows; each statement the handlers issue is a function on the tables. A query without
  \<open>ORDER BY\<close> answers its rows in the order of the list, which stands for whatever
  order the database picks. Integer columns hold every integer (the column types are
  not part of the source). Only the columns the handlers read or write in the modelled
  statements are kept (timestamps are dropped).

  A transaction is the pair of the store at \<open>BEGIN\<close> and the store so far:
  \<open>ROLLBACK\<close> answers with the first, \<open>COMMIT\<close> with the second. Outside the loop
  of the bulk approval every statement is taken to succeed: the handlers' outer
  \<open>catch\<close> blocks, which answer 500 after a \<open>ROLLBACK\<close>, run only when the driver
  throws there. Inside that loop either update of an item may throw, and the loop's own
  \<open>catch\<close> block is part of the model. The handler opens one transaction and sets no
  savepoint, so the database treats a failed statement as PostgreSQL does: the
  transaction is aborted, every later statement of it fails as well, and \<open>COMMIT\<close>
  ends it as a rollback, without an error.
\<close>

record drug =
  d_id :: nat
  d_name :: string
  d_stock :: int
  d_created_by :: nat

record order_row =
  o_id :: nat
  o_recipient_id :: "nat option"

record order_item =
  oi_id :: nat
  oi_order_id :: nat
  oi_drug_id :: "nat option"
  oi_quantity :: int
  oi_status :: string
  oi_seller_id :: nat

record dispensing =
  dds_id :: nat
  dds_drug_id :: nat
  dds_quantity_dispensed :: int
  dds_dispensing_date :: string
  dds_category :: string
  dds_notes :: "string option"
  dds_recorded_by :: nat

record db =
  drugs :: "drug list"
  orders :: "order_row list"
  order_items :: "order_item list"
  daily_dispensing_summary :: "dispensing list"

text \<open>\<open>UPDATE drugs SET stock = stock - $1 WHERE id = $2\<close>\<close>

definition drugs_sub_stock :: "int \<Rightarrow> nat \<Rightarrow> db \<Rightarrow> db" where
  "drugs_sub_stock n k s =
     s\<lparr>drugs := map (\<lambda>d. if d_id d = k then d\<lparr>d_stock := d_stock d - n\<rparr> else d) (drugs s)\<rparr>"

text \<open>\<open>UPDATE drugs SET stock = stock + $1 WHERE id = $2\<close>\<close>

definition drugs_add_stock :: "int \<Rightarrow> nat \<Rightarrow> db \<Rightarrow> db" where
  "drugs_add_stock n k s =
     s\<lparr>drugs := map (\<lambda>d. if d_id d = k then d\<lparr>d_stock := d_stock d + n\<rparr> else d) (drugs s)\<rparr>"

text \<open>\<open>UPDATE order_items SET quantity = $1 WHERE id = $2\<close>\<close>

definition order_items_set_quantity :: "int \<Rightarrow> nat \<Rightarrow> db \<Rightarrow> db" where
  "order_items_set_quantity q i s =
     s\<lparr>order_items :=
         map (\<lambda>r. if oi_id r = i then r\<lparr>oi_quantity := q\<rparr> else r) (order_items s)\<rparr>"

text \<open>\<open>UPDATE order_items SET status = $1 WHERE id = $2\<close>\<close>

definition order_items_set_status :: "string \<Rightarrow> nat \<Rightarrow> db \<Rightarrow> db" where
  "order_items_set_status st i s =
     s\<lparr>order_items :=
         map (\<lambda>r. if oi_id r = i then r\<lparr>oi_status := st\<rparr> else r) (order_items s)\<rparr>"

text \<open>The stock of the first drug row with the given id, if there is one.\<close>

definition stock_of :: "db \<Rightarrow> nat \<Rightarrow> int option" where
  "stock_of s k = map_option d_stock (find (\<lambda>d. d_id d = k) (drugs s))"

section \<open>Single order-item update (\<open>updateOrderItemStatus\<close>)\<close>

text \<open>
  The row the ownership query returns: the item joined (\<open>LEFT JOIN\<close>) with its drug, so
  \<open>stock\<close> is \<open>NULL\<close> when no drug row matches.
\<close>

record item_row =
  ir_id :: nat
  ir_current_status :: string
  ir_drug_id :: "nat option"
  ir_original_quantity :: int
  ir_stock :: "int option"

definition select_item :: "db \<Rightarrow> nat \<Rightarrow> nat \<Rightarrow> item_row option" where
  "select_item s orderItemId sellerId =
     (case find (\<lambda>r. oi_id r = orderItemId \<and> oi_seller_id r = sellerId) (order_items s) of
        None \<Rightarrow> None
      | Some r \<Rightarrow>
          Some \<lparr>ir_id = oi_id r, ir_current_status = oi_status r, ir_drug_id = oi_drug_id r,
                ir_original_quantity = oi_quantity r,
                ir_stock = (case oi_drug_id r of None \<Rightarrow> None | Some k \<Rightarrow> stock_of s k)\<rparr>)"

text \<open>
  The request body: \<open>status\<close> is a JSON string or absent, \<open>quantity\<close> a finite JSON
  number or absent. The handler tests both with JavaScript truthiness: the empty
  string and the number 0 count as absent, and so does the drug id 0.

  The handler reads the number through \<open>parseInt(quantity)\<close>, which prints the number
  and parses the text. JavaScript prints a finite number as an optional minus sign, the
  decimal digits of an integer, and a tail that is empty, a fraction or an exponent:
  \<open>5\<close>, \<open>-4\<close>, \<open>2.5\<close>, \<open>0.5\<close>, \<open>1e+21\<close>, \<open>1.5e-7\<close>. \<open>parseInt\<close> reads the
  sign and the digits and stops at the tail. A number is represented by these three
  parts of its printed text. The number 0 prints as \<open>0\<close> with no tail and is the only
  falsy one. An integer \<open>n\<close> with \<open>|n| < 10^21\<close> prints as its sign and digits with no
  tail (\<open>js_of_int\<close>); from \<open>10^21\<close> on the text has an exponent, so \<open>1e21\<close> is
  \<open>JsNumber False 1 ''e+21''\<close> and \<open>parseInt\<close> of it is 1.
\<close>

datatype js_number = JsNumber (js_minus: bool) (js_digits: nat) (js_tail: string)

definition parseInt :: "js_number \<Rightarrow> int" where
  "parseInt n = (if js_minus n then - int (js_digits n) else int (js_digits n))"


definition truthy_string :: "string option \<Rightarrow> string option" where
  "truthy_string v = (case v of None \<Rightarrow> None | Some s \<Rightarrow> if s = [] then None else Some s)"

definition truthy_number :: "js_number option \<Rightarrow> js_number option" where
  "truthy_number v =
     (case v of
        None \<Rightarrow> None
      | Some n \<Rightarrow> if js_digits n = 0 \<and> js_tail n = [] then None else Some n)"

definition truthy_id :: "nat option \<Rightarrow> nat option" where
  "truthy_id v = (case v of None \<Rightarrow> None | Some n \<Rightarrow> if n = 0 then None else Some n)"

text \<open>\<open>item.stock < newQuantity\<close>, where a \<open>null\<close> stock compares as 0.\<close>

definition stock_lt :: "int option \<Rightarrow> int \<Rightarrow> bool" where
  "stock_lt st n = ((case st of None \<Rightarrow> 0 | Some v \<Rightarrow> v) < n)"

datatype update_response =
    ItemNotFound
  | InsufficientStock "int option" int
  | ItemUpdated

definition updateOrderItemStatus ::
  "db \<Rightarrow> nat \<Rightarrow> nat \<Rightarrow> string option \<Rightarrow> js_number option \<Rightarrow> update_response \<times> db" where
  "updateOrderItemStatus s sellerId orderItemId status quantity =
     (case select_item s orderItemId sellerId of
        None \<Rightarrow> (ItemNotFound, s)
      | Some item \<Rightarrow>
          let newQuantity =
                (case truthy_number quantity of
                   Some q \<Rightarrow> parseInt q
                 | None \<Rightarrow> ir_original_quantity item);
              s1 = (case truthy_number quantity of
                      Some q \<Rightarrow> order_items_set_quantity newQuantity orderItemId s
                    | None \<Rightarrow> s)
          in (case truthy_string status of
                None \<Rightarrow> (ItemUpdated, s1)
              | Some st \<Rightarrow>
                  let s2 = order_items_set_status st orderItemId s1
                  in (case truthy_id (ir_drug_id item) of
                        None \<Rightarrow> (ItemUpdated, s2)
                      | Some k \<Rightarrow>
                          if st = ''approved'' \<and> ir_current_status item \<noteq> ''approved'' then
                            if stock_lt (ir_stock item) newQuantity
                            then (InsufficientStock (ir_stock item) newQuantity, s)
                            else (ItemUpdated, drugs_sub_stock newQuantity k s2)
                          else if st = ''rejected'' \<and> ir_current_status item = ''approved'' then
                            (ItemUpdated, drugs_add_stock (ir_original_quantity item) k s2)
                          else (ItemUpdated, s2))))"

section \<open>Bulk approval (\<open>approveAllItems\<close>)\<close>

text \<open>
  The locking query: the pending items of the order that the caller sells or receives,
  joined (\<open>INNER JOIN\<close>) with their drug. Each row carries the drug's stock as it was
  when the query ran.
\<close>

record pending_row =
  pr_id :: nat
  pr_drug_id :: nat
  pr_quantity :: int
  pr_stock :: int
  pr_drug_name :: string

definition recipient_of :: "db \<Rightarrow> nat \<Rightarrow> nat option" where
  "recipient_of s orderId =
     (case find (\<lambda>row. o_id row = orderId) (orders s) of
        None \<Rightarrow> None
      | Some row \<Rightarrow> o_recipient_id row)"

definition select_pending :: "db \<Rightarrow> nat \<Rightarrow> nat \<Rightarrow> pending_row list" where
  "select_pending s orderId sellerId =
     concat (map (\<lambda>r.
        if oi_order_id r = orderId \<and> oi_status r = ''pending'' \<and>
           (oi_seller_id r = sellerId \<or> recipient_of s orderId = Some sellerId)
        then (case oi_drug_id r of
                None \<Rightarrow> []
              | Some k \<Rightarrow>
                  map (\<lambda>d. \<lparr>pr_id = oi_id r, pr_drug_id = k, pr_quantity = oi_quantity r,
                            pr_stock = d_stock d, pr_drug_name = d_name d\<rparr>)
                      (filter (\<lambda>d. d_id d = k) (drugs s)))
        else []) (order_items s))"

record insufficient_item =
  ins_drug_name :: string
  ins_requested :: int
  ins_available :: int
  ins_reason :: string

text \<open>
  What the database does with the two updates of one item inside the loop's \<open>try\<close>
  block while the transaction is live: both succeed, or the first throws, or the first
  succeeds and the second throws. \<open>fault\<close> gives this for each order-item id and is a
  parameter of the model. Once a statement has thrown the transaction is aborted, and
  the first update of every later item throws whatever \<open>fault\<close> says.
\<close>

datatype approval_fault =
    NoFault
  | StatusUpdateThrows
  | StockUpdateThrows

text \<open>
  The \<open>for\<close> loop over the rows of the query. \<open>availableStock\<close> is the row's own
  \<open>stock\<close> field (\<open>Number(item.stock) || 0\<close> is that integer), not a fresh read. The
  state is the store so far, whether the transaction is aborted, \<open>approvedCount\<close> and
  \<open>insufficientStockItems\<close>.
\<close>

fun approve_loop ::
  "(nat \<Rightarrow> approval_fault) \<Rightarrow> pending_row list \<Rightarrow>
   db \<times> bool \<times> nat \<times> insufficient_item list \<Rightarrow> db \<times> bool \<times> nat \<times> insufficient_item list"
where
  "approve_loop fault [] acc = acc"
| "approve_loop fault (item # rest) (s, aborted, approvedCount, insufficientStockItems) =
     (let availableStock = pr_stock item; requestedQuantity = pr_quantity item
      in if availableStock \<ge> requestedQuantity then
           (case (if aborted then StatusUpdateThrows else fault (pr_id item)) of
              NoFault \<Rightarrow>
                approve_loop fault rest
                  (drugs_sub_stock requestedQuantity (pr_drug_id item)
                     (order_items_set_status ''approved'' (pr_id item) s),
                   False, approvedCount + 1, insufficientStockItems)
            | StatusUpdateThrows \<Rightarrow>
                approve_loop fault rest
                  (s, True, approvedCount,
                   insufficientStockItems @
                     [\<lparr>ins_drug_name = pr_drug_name item, ins_requested = requestedQuantity,
                       ins_available = availableStock,
                       ins_reason = ''Database error during approval''\<rparr>])
            | StockUpdateThrows \<Rightarrow>
                approve_loop fault rest
                  (order_items_set_status ''approved'' (pr_id item) s, True, approvedCount,
                   insufficientStockItems @
                     [\<lparr>ins_drug_name = pr_drug_name item, ins_requested = requestedQuantity,
                       ins_available = availableStock,
                       ins_reason = ''Database error during approval''\<rparr>]))
         else
           approve_loop fault rest
             (s, aborted, approvedCount,
              insufficientStockItems @
                [\<lparr>ins_drug_name = pr_drug_name item, ins_requested = requestedQuantity,
                  ins_available = availableStock, ins_reason = ''Insufficient stock''\<rparr>]))"

text \<open>
  \<open>NoPendingItems\<close> is the early answer (\<open>approvedCount: 0\<close>, an empty list, no
  \<open>totalItems\<close>); \<open>BulkApproved\<close> carries \<open>approvedCount\<close>,
  \<open>insufficientStockItems\<close> and \<open>totalItems\<close>. The \<open>COMMIT\<close> after the loop keeps
  the store of the loop, or rolls back to the store at \<open>BEGIN\<close> when the transaction is
  aborted; the answer is the same in both cases.
\<close>

datatype bulk_response =
    NoPendingItems
  | BulkApproved nat "insufficient_item list" nat

definition approveAllItems ::
  "(nat \<Rightarrow> approval_fault) \<Rightarrow> db \<Rightarrow> nat \<Rightarrow> nat \<Rightarrow> bulk_response \<times> db" where
  "approveAllItems fault s sellerId orderId =
     (let pendingItems = select_pending s orderId sellerId
      in if pendingItems = [] then (NoPendingItems, s)
         else (case approve_loop fault pendingItems (s, False, 0, []) of
                 (s', aborted, approvedCount, insufficientStockItems) \<Rightarrow>
                   (BulkApproved approvedCount insufficientStockItems (length pendingItems),
                    if aborted then s else s')))"

text \<open>
  What the loop decides for one row when no statement throws, read off its condition:
  the row is counted in \<open>approvedCount\<close> when its own stock field covers its quantity,
  and listed otherwise.
\<close>

definition sufficient :: "pending_row \<Rightarrow> bool" where
  "sufficient r = (pr_stock r \<ge> pr_quantity r)"

definition insufficient_of :: "pending_row \<Rightarrow> insufficient_item" where
  "insufficient_of r =
     \<lparr>ins_drug_name = pr_drug_name r, ins_requested = pr_quantity r,
      ins_available = pr_stock r, ins_reason = ''Insufficient stock''\<rparr>"

text \<open>The quantity the counted rows of a result set request from the drug \<open>k\<close>.\<close>

definition approved_quantity :: "pending_row list \<Rightarrow> nat \<Rightarrow> int" where
  "approved_quantity rows k =
     sum_list (map pr_quantity (filter (\<lambda>r. sufficient r \<and> pr_drug_id r = k) rows))"

section \<open>Daily dispensing (\<open>recordDailyDispensing\<close>)\<close>

text \<open>
  The request body. \<open>quantity_dispensed\<close> is a JSON integer; the date, the category and
  the notes may be absent. \<open>currentDate\<close> is the server's date and a parameter of the
  model.
\<close>

record dispensing_body =
  b_drug_id :: nat
  b_quantity_dispensed :: int
  b_dispensing_date :: "string option"
  b_category :: "string option"
  b_notes :: "string option"

datatype dispensing_response =
    OnlyTodayAllowed
  | DrugNotFound
  | InsufficientStockToDispense int int
  | InsufficientStockForUpdate int int
  | DispensingRecorded "dispensing option" "int option"
  | DispensingUpdated "dispensing option" "int option"

definition category_or_opd :: "string option \<Rightarrow> string" where
  "category_or_opd c = (case truthy_string c of None \<Rightarrow> ''OPD'' | Some v \<Rightarrow> v)"

text \<open>The id a serial column gives the next inserted row.\<close>

definition next_dds_id :: "dispensing list \<Rightarrow> nat" where
  "next_dds_id rows = Suc (fold max (map dds_id rows) 0)"

definition existing_record :: "db \<Rightarrow> nat \<Rightarrow> string \<Rightarrow> string \<Rightarrow> dispensing option" where
  "existing_record s drug_id date category =
     find (\<lambda>r. dds_drug_id r = drug_id \<and> dds_dispensing_date r = date \<and> dds_category r = category)
          (daily_dispensing_summary s)"

definition recordDailyDispensing ::
  "db \<Rightarrow> nat \<Rightarrow> string \<Rightarrow> dispensing_body \<Rightarrow> dispensing_response \<times> db" where
  "recordDailyDispensing s userId currentDate body =
     (let requestedDate =
            (case truthy_string (b_dispensing_date body) of None \<Rightarrow> currentDate | Some d \<Rightarrow> d);
          drug_id = b_drug_id body;
          quantity_dispensed = b_quantity_dispensed body
      in if requestedDate \<noteq> currentDate then (OnlyTodayAllowed, s)
         else
           (case find (\<lambda>d. d_id d = drug_id \<and> d_created_by d = userId) (drugs s) of
              None \<Rightarrow> (DrugNotFound, s)
            | Some drug \<Rightarrow>
                if d_stock drug < quantity_dispensed
                then (InsufficientStockToDispense (d_stock drug) quantity_dispensed, s)
                else
                  (case existing_record s drug_id currentDate (category_or_opd (b_category body)) of
                     Some existing \<Rightarrow>
                       let quantityDifference = quantity_dispensed - dds_quantity_dispensed existing
                       in if d_stock drug < quantityDifference
                          then (InsufficientStockForUpdate (d_stock drug) quantityDifference, s)
                          else
                            let s1 = s\<lparr>daily_dispensing_summary :=
                                         map (\<lambda>r. if dds_id r = dds_id existing
                                                   then r\<lparr>dds_quantity_dispensed := quantity_dispensed,
                                                          dds_notes := b_notes body\<rparr>
                                                   else r)
                                             (daily_dispensing_summary s)\<rparr>;
                                s2 = drugs_sub_stock quantityDifference drug_id s1
                            in (DispensingUpdated
                                  (find (\<lambda>r. dds_id r = dds_id existing) (daily_dispensing_summary s2))
                                  (stock_of s2 drug_id), s2)
                   | None \<Rightarrow>
                       let row = \<lparr>dds_id = next_dds_id (daily_dispensing_summary s),
                                  dds_drug_id = drug_id,
                                  dds_quantity_dispensed = quantity_dispensed,
                                  dds_dispensing_date = currentDate,
                                  dds_category = category_or_opd (b_category body),
                                  dds_notes = b_notes body,
                                  dds_recorded_by = userId\<rparr>;
                           s1 = s\<lparr>daily_dispensing_summary := daily_dispensing_summary s @ [row]\<rparr>;
                           s2 = drugs_sub_stock quantity_dispensed drug_id s1
                       in (DispensingRecorded (Some row) (stock_of s2 drug_id), s2))))"

section \<open>Generated SQL: strings and patterns\<close>

text \<open>
  The chatbot lets a text model write a SQL statement and checks the text before it
  runs it. Strings are lists of ASCII characters (JavaScript's code units below 128);
  case mapping touches the ASCII letters only. A regular expression of the source is a
  matcher: given the subject and a start index it answers the end index of the match
  there, with the captured groups, or nothing. The matchers below are written out for
  the expressions the source uses; where an expression could backtrack, the text says
  why the alternative tried first is the only one that can succeed.
\<close>

definition is_lower :: "char \<Rightarrow> bool" where
  "is_lower c = (97 \<le> (of_char c :: nat) \<and> (of_char c :: nat) \<le> 122)"

definition is_upper :: "char \<Rightarrow> bool" where
  "is_upper c = (65 \<le> (of_char c :: nat) \<and> (of_char c :: nat) \<le> 90)"

definition is_digit :: "char \<Rightarrow> bool" where
  "is_digit c = (48 \<le> (of_char c :: nat) \<and> (of_char c :: nat) \<le> 57)"

text \<open>\<open>\s\<close> on ASCII: tab, line feed, vertical tab, form feed, carriage return, space.\<close>

definition is_space :: "char \<Rightarrow> bool" where
  "is_space c = ((9 \<le> (of_char c :: nat) \<and> (of_char c :: nat) \<le> 13) \<or> c = CHR 0x20)"

text \<open>\<open>\w\<close>\<close>

definition is_word :: "char \<Rightarrow> bool" where
  "is_word c = (is_lower c \<or> is_upper c \<or> is_digit c \<or> c = CHR ''_'')"

text \<open>\<open>[a-z_]\<close> under the \<open>i\<close> flag, and without it.\<close>

definition is_ident_start_ci :: "char \<Rightarrow> bool" where
  "is_ident_start_ci c = (is_lower c \<or> is_upper c \<or> c = CHR ''_'')"

definition is_ident_start :: "char \<Rightarrow> bool" where
  "is_ident_start c = (is_lower c \<or> c = CHR ''_'')"

text \<open>\<open>[a-z0-9_."]\<close> under the \<open>i\<close> flag.\<close>

definition is_table_char :: "char \<Rightarrow> bool" where
  "is_table_char c =
     (is_lower c \<or> is_upper c \<or> is_digit c \<or> c = CHR ''_'' \<or> c = CHR ''.'' \<or> c = CHR 0x22)"

text \<open>The ASCII letters are 32 code units apart.\<close>

definition to_upper :: "char \<Rightarrow> char" where
  "to_upper c = (if is_lower c then char_of ((of_char c :: nat) - 32) else c)"

definition to_lower :: "char \<Rightarrow> char" where
  "to_lower c = (if is_upper c then char_of ((of_char c :: nat) + 32) else c)"

definition toUpperCase :: "string \<Rightarrow> string" where
  "toUpperCase s = map to_upper s"

definition toLowerCase :: "string \<Rightarrow> string" where
  "toLowerCase s = map to_lower s"

definition trim :: "string \<Rightarrow> string" where
  "trim s = rev (dropWhile is_space (rev (dropWhile is_space s)))"

definition startsWith :: "string \<Rightarrow> string \<Rightarrow> bool" where
  "startsWith s k = (take (length k) s = k)"

definition endsWith :: "string \<Rightarrow> string \<Rightarrow> bool" where
  "endsWith s k = (length k \<le> length s \<and> drop (length s - length k) s = k)"

text \<open>\<open>indexOf\<close>: the first index at which \<open>k\<close> occurs in \<open>s\<close>.\<close>

fun indexOf :: "string \<Rightarrow> string \<Rightarrow> nat option" where
  "indexOf [] k = (if k = [] then Some 0 else None)"
| "indexOf (c # cs) k =
     (if startsWith (c # cs) k then Some 0 else map_option Suc (indexOf cs k))"

definition includes_sub :: "string \<Rightarrow> string \<Rightarrow> bool" where
  "includes_sub s k = (indexOf s k \<noteq> None)"

text \<open>\<open>s.slice(a, b)\<close> for \<open>0 \<le> a\<close>.\<close>

definition slice :: "string \<Rightarrow> nat \<Rightarrow> nat \<Rightarrow> string" where
  "slice s a b = take (b - a) (drop a s)"

text \<open>\<open>\b\<close> at index \<open>i\<close> of \<open>s\<close>: exactly one of the two neighbours is a word character.\<close>

definition word_at :: "string \<Rightarrow> nat \<Rightarrow> bool" where
  "word_at s i = (i < length s \<and> is_word (s ! i))"

definition boundary :: "string \<Rightarrow> nat \<Rightarrow> bool" where
  "boundary s i = ((0 < i \<and> word_at s (i - 1)) \<noteq> word_at s i)"

text \<open>
  A global expression run over a subject: every match in turn, the search for the next
  one starting where the last one ended (\<open>lastIndex\<close>). A match is its start index, its
  end index and its groups. No expression of the source matches the empty string; the
  step past an empty match is there for the definition to terminate.
\<close>

function regex_all :: "(string \<Rightarrow> nat \<Rightarrow> (nat \<times> 'g) option) \<Rightarrow> string \<Rightarrow> nat \<Rightarrow> (nat \<times> nat \<times> 'g) list"
where
  "regex_all at s i =
     (if length s < i then []
      else (case at s i of
              Some (e, g) \<Rightarrow> (i, e, g) # regex_all at s (if i < e then e else i + 1)
            | None \<Rightarrow> regex_all at s (i + 1)))"
  by pat_completeness auto
termination
  by (relation "measure (\<lambda>(at, s, i). Suc (length s) - i)") auto

declare regex_all.simps [simp del]

text \<open>\<open>s.replace(re, rep)\<close> for a global expression \<open>re\<close> and a fixed replacement.\<close>

function replace_all :: "(string \<Rightarrow> nat \<Rightarrow> (nat \<times> 'g) option) \<Rightarrow> string \<Rightarrow> string \<Rightarrow> nat \<Rightarrow> string"
where
  "replace_all at rep s i =
     (if length s \<le> i then []
      else (case at s i of
              Some (e, g) \<Rightarrow>
                rep @ (if i < e then replace_all at rep s e else s ! i # replace_all at rep s (i + 1))
            | None \<Rightarrow> s ! i # replace_all at rep s (i + 1)))"
  by pat_completeness auto
termination
  by (relation "measure (\<lambda>(at, rep, s, i). length s - i)") auto

declare replace_all.simps [simp del]

text \<open>
  \<open>/'(?:\\'|[^'])*'/\<close> and its double-quote twin, after the opening quote \<open>q\<close>. The
  star takes \<open>\q\<close> as one step where it can, else any character but \<open>q\<close>; it stops at
  a bare \<open>q\<close>, which closes the literal. If the subject ends first, the engine backs up
  to the last \<open>\q\<close> it took as one step, reads its backslash as a plain character and
  closes the literal with its quote: \<open>fb\<close> remembers that end. \<open>n\<close> counts the
  characters read so far.
\<close>

fun quoted_body :: "char \<Rightarrow> string \<Rightarrow> nat \<Rightarrow> nat option \<Rightarrow> nat option" where
  "quoted_body q [] n fb = fb"
| "quoted_body q [c] n fb = (if c = q then Some (n + 1) else fb)"
| "quoted_body q (c # d # cs) n fb =
     (if c = CHR 0x5C \<and> d = q then quoted_body q cs (n + 2) (Some (n + 2))
      else if c \<noteq> q then quoted_body q (d # cs) (n + 1) fb
      else Some (n + 1))"

definition m_quoted :: "char \<Rightarrow> string \<Rightarrow> nat \<Rightarrow> (nat \<times> unit) option" where
  "m_quoted q s i =
     (if i < length s \<and> s ! i = q
      then map_option (\<lambda>n. (i + 1 + n, ())) (quoted_body q (drop (i + 1) s) 0 None)
      else None)"

text \<open>\<open>/\$\$[\s\S]*?\$\$/\<close>: from \<open>$$\<close> to the nearest later \<open>$$\<close>.\<close>

definition m_dollar :: "string \<Rightarrow> nat \<Rightarrow> (nat \<times> unit) option" where
  "m_dollar s i =
     (if startsWith (drop i s) ''$$''
      then map_option (\<lambda>j. (i + 2 + j + 2, ())) (indexOf (drop (i + 2) s) ''$$'')
      else None)"

text \<open>\<open>/```sql|```/\<close>\<close>

definition m_fence :: "string \<Rightarrow> nat \<Rightarrow> (nat \<times> unit) option" where
  "m_fence s i =
     (if startsWith (drop i s) ''```sql'' then Some (i + 6, ())
      else if startsWith (drop i s) ''```'' then Some (i + 3, ())
      else None)"

text \<open>\<open>[a-z_][\w]*\<close> under the \<open>i\<close> flag at the head of \<open>r\<close>, taken greedily.\<close>

definition m_ident :: "string \<Rightarrow> string option" where
  "m_ident r =
     (case r of
        [] \<Rightarrow> None
      | c # cs \<Rightarrow> if is_ident_start_ci c then Some (c # takeWhile is_word cs) else None)"

text \<open>
  The optional tail \<open>(?:\s+(?:as\s+)?([a-z_][\w]*))?\<close> of the table expression at the
  head of \<open>r\<close>: the length it takes and the alias. \<open>as\<close> with white space after it is
  tried first; if no identifier follows that white space, the word \<open>as\<close> itself is the
  identifier. Giving back white space never helps: an identifier cannot start with it.
\<close>

definition m_alias :: "string \<Rightarrow> (nat \<times> string) option" where
  "m_alias r =
     (let sp = takeWhile is_space r; a0 = dropWhile is_space r
      in if sp = [] then None
         else
           (case (if toLowerCase (take 2 a0) = ''as''
                  then let a1 = drop 2 a0; sp2 = takeWhile is_space a1
                       in if sp2 = [] then None
                          else map_option (\<lambda>a. (length sp + 2 + length sp2 + length a, a))
                                 (m_ident (dropWhile is_space a1))
                  else None) of
              Some res \<Rightarrow> Some res
            | None \<Rightarrow> map_option (\<lambda>a. (length sp + length a, a)) (m_ident a0)))"

text \<open>
  \<open>/\b(?:from|join)\s+([a-z0-9_."]+)(?:\s+(?:as\s+)?([a-z_][\w]*))?/ig\<close> at index \<open>i\<close>.
  The table token is taken greedily; the tail is optional, so the token never gives
  characters back.
\<close>

definition m_table :: "string \<Rightarrow> nat \<Rightarrow> (nat \<times> string \<times> string option) option" where
  "m_table s i =
     (let r = drop i s; kw = toLowerCase (take 4 r)
      in if boundary s i \<and> (kw = ''from'' \<or> kw = ''join'') then
           let r0 = drop 4 r; sp = takeWhile is_space r0; r1 = dropWhile is_space r0;
               tok = takeWhile is_table_char r1; r2 = dropWhile is_table_char r1;
               e = i + 4 + length sp + length tok
           in if sp = [] \<or> tok = [] then None
              else (case m_alias r2 of
                      Some (n, a) \<Rightarrow> Some (e + n, tok, Some a)
                    | None \<Rightarrow> Some (e, tok, None))
         else None)"

text \<open>
  \<open>/\b([a-z_][\w]*)\.([a-z_][\w]*)\b/ig\<close> at index \<open>i\<close>. Both identifiers are taken
  greedily: a shorter first one is followed by a word character, not by the dot, and
  after the whole second one the closing \<open>\b\<close> holds.
\<close>

definition m_qualified :: "string \<Rightarrow> nat \<Rightarrow> (nat \<times> string \<times> string) option" where
  "m_qualified s i =
     (if boundary s i then
        (case m_ident (drop i s) of
           None \<Rightarrow> None
         | Some tbl \<Rightarrow>
             (case drop (i + length tbl) s of
                [] \<Rightarrow> None
              | d # r \<Rightarrow>
                  if d = CHR ''.'' then
                    (case m_ident r of
                       None \<Rightarrow> None
                     | Some col \<Rightarrow> Some (i + length tbl + 1 + length col, tbl, col))
                  else None))
      else None)"

text \<open>\<open>/\b([a-z_][\w]*)\b/ig\<close> at index \<open>i\<close>.\<close>

definition m_token :: "string \<Rightarrow> nat \<Rightarrow> (nat \<times> string) option" where
  "m_token s i =
     (if boundary s i then map_option (\<lambda>t. (i + length t, t)) (m_ident (drop i s)) else None)"

text \<open>\<open>/\.[a-z_]/.test(a)\<close>\<close>

fun test_dot_ident :: "string \<Rightarrow> bool" where
  "test_dot_ident (c # d # r) = ((c = CHR ''.'' \<and> is_ident_start d) \<or> test_dot_ident (d # r))"
| "test_dot_ident _ = False"

text \<open>
  \<open>/\b[a-z_][\w]*\.\b/.test(a)\<close>: an identifier that starts at a word boundary with a
  lower-case letter or an underscore, then a dot, then a word character.
\<close>

definition m_ident_dot :: "string \<Rightarrow> nat \<Rightarrow> bool" where
  "m_ident_dot a i =
     (boundary a i \<and>
      (case drop i a of
         [] \<Rightarrow> False
       | c # cs \<Rightarrow>
           is_ident_start c \<and>
           (let e = i + 1 + length (takeWhile is_word cs)
            in e < length a \<and> a ! e = CHR ''.'' \<and> boundary a (e + 1))))"

definition test_ident_dot :: "string \<Rightarrow> bool" where
  "test_ident_dot a = list_ex (m_ident_dot a) [0..<length a]"

text \<open>\<open>/^\d+$/.test(t)\<close>\<close>

definition test_all_digits :: "string \<Rightarrow> bool" where
  "test_all_digits t = (t \<noteq> [] \<and> list_all is_digit t)"

section \<open>The column validator (\<open>validateSQLColumns\<close>)\<close>

definition validColumns_listed :: "string list" where
  "validColumns_listed =
     [''users.id'', ''users.name'', ''users.email'', ''users.password'', ''users.phone'',
      ''users.street'', ''users.city'', ''users.state'', ''users.postal_code'',
      ''users.country'', ''users.status'', ''users.registration_date'',
      ''users.license_number'', ''users.role'', ''users.created_by'', ''users.created_at'',
      ''users.updated_at'',
      ''drugs.id'', ''drugs.drug_type'', ''drugs.name'', ''drugs.batch_no'',
      ''drugs.description'', ''drugs.stock'', ''drugs.mfg_date'', ''drugs.exp_date'',
      ''drugs.price'', ''drugs.created_by'', ''drugs.category'', ''drugs.created_at'',
      ''drugs.updated_at'',
      ''orders.id'', ''orders.order_no'', ''orders.user_id'', ''orders.recipient_id'',
      ''orders.transaction_type'', ''orders.notes'', ''orders.total_amount'',
      ''orders.created_at'', ''orders.updated_at'',
      ''order_items.id'', ''order_items.order_id'', ''order_items.drug_id'',
      ''order_items.custom_name'', ''order_items.manufacturer_name'',
      ''order_items.quantity'', ''order_items.unit_price'', ''order_items.total_price'',
      ''order_items.source_type'', ''order_items.category'', ''order_items.batch_no'',
      ''order_items.seller_id'', ''order_items.status'', ''order_items.created_at'',
      ''order_items.updated_at'',
      ''drug_types.id'', ''drug_types.type_name'', ''drug_types.created_at'',
      ''drug_types.updated_at'',
      ''drug_names.id'', ''drug_names.type_id'', ''drug_names.name'',
      ''drug_names.created_at'', ''drug_names.updated_at'']"

definition validColumns :: "string list" where
  "validColumns = map toLowerCase validColumns_listed"

definition sqlKeywords :: "string list" where
  "sqlKeywords =
     [''select'', ''from'', ''where'', ''order'', ''by'', ''limit'', ''join'', ''left'',
      ''right'', ''inner'', ''outer'', ''on'', ''and'', ''or'', ''group'', ''having'', ''as'',
      ''count'', ''sum'', ''avg'', ''min'', ''max'', ''distinct'', ''case'', ''when'',
      ''then'', ''else'', ''end'', ''between'', ''in'', ''is'', ''not'', ''null'', ''like'',
      ''ilike'', ''exists'', ''now'', ''interval'', ''true'', ''false'', ''offset'', ''union'',
      ''all'', ''except'', ''intersect'', ''limit'', ''offset'']"

text \<open>
  \<open>aliasMap\<close> is a plain object: its own properties are the map, and a read also sees
  what \<open>Object.prototype\<close> gives every object. Of the inherited names only
  \<open>constructor\<close> and \<open>__proto__\<close> are all lower case, as every key read here is. A
  write to \<open>__proto__\<close> with a string does nothing. \<open>aliasMap_get\<close> answers the value as
  a string when it is truthy (the empty string is not).
\<close>

definition aliasMap_set :: "(string \<rightharpoonup> string) \<Rightarrow> string \<Rightarrow> string \<Rightarrow> (string \<rightharpoonup> string)" where
  "aliasMap_set m k v = (if k = ''__proto__'' then m else m(k \<mapsto> v))"

definition aliasMap_get :: "(string \<rightharpoonup> string) \<Rightarrow> string \<Rightarrow> string option" where
  "aliasMap_get m k =
     (case m k of
        Some v \<Rightarrow> if v = [] then None else Some v
      | None \<Rightarrow>
          if k = ''constructor'' then Some ''function Object() { [native code] }''
          else if k = ''__proto__'' then Some ''[object Object]''
          else None)"

text \<open>\<open>tableToken.replace(/^"+|"+$/g, '')\<close>: the leading and the trailing run of quotes.\<close>

definition strip_quotes :: "string \<Rightarrow> string" where
  "strip_quotes t =
     rev (dropWhile (\<lambda>c. c = CHR 0x22) (rev (dropWhile (\<lambda>c. c = CHR 0x22) t)))"

text \<open>\<open>tableToken.split('.').pop()\<close>: what follows the last dot.\<close>

definition last_segment :: "string \<Rightarrow> string" where
  "last_segment t = rev (takeWhile (\<lambda>c. c \<noteq> CHR ''.'') (rev t))"

definition record_table :: "nat \<times> nat \<times> string \<times> string option \<Rightarrow> (string \<rightharpoonup> string) \<Rightarrow> (string \<rightharpoonup> string)"
where
  "record_table m aliasMap =
     (case m of (i, e, tok, alias) \<Rightarrow>
        let tableToken = strip_quotes (trim tok);
            tableName = last_segment tableToken;
            aliasMap1 = (case alias of
                           Some a \<Rightarrow> aliasMap_set aliasMap (trim a) tableName
                         | None \<Rightarrow> aliasMap)
        in aliasMap_set aliasMap1 tableName tableName)"

text \<open>\<open>invalid.add(x)\<close> on a \<open>Set\<close>, which keeps insertion order.\<close>

definition set_add :: "string \<Rightarrow> string list \<Rightarrow> string list" where
  "set_add x xs = (if x \<in> set xs then xs else xs @ [x])"

text \<open>
  One qualified reference. The token recorded is looked up in the original text by an
  expression that spells \<open>tbl.col\<close> literally; whether it is found or not, the string
  added is \<open>tbl.col\<close>.
\<close>

definition check_qualified ::
  "(string \<rightharpoonup> string) \<Rightarrow> nat \<times> nat \<times> string \<times> string \<Rightarrow> string list \<Rightarrow> string list" where
  "check_qualified aliasMap m invalid =
     (case m of (i, e, tbl, col) \<Rightarrow>
        let mappedTable = (case aliasMap_get aliasMap tbl of Some t \<Rightarrow> t | None \<Rightarrow> tbl);
            full = mappedTable @ ''.'' @ col
        in if full \<in> set validColumns then invalid
           else set_add (tbl @ ''.'' @ col) invalid)"

text \<open>One bare token, found at index \<open>i\<close> of \<open>lowerSql\<close>.\<close>

definition check_token ::
  "string \<Rightarrow> (string \<rightharpoonup> string) \<Rightarrow> nat \<times> nat \<times> string \<Rightarrow> string list \<Rightarrow> string list" where
  "check_token lowerSql aliasMap m invalid =
     (case m of (i, e, token) \<Rightarrow>
        if token \<in> set sqlKeywords then invalid
        else if test_all_digits token then invalid
        else
          let ahead = slice lowerSql (i - 3) (i + length token + 2)
          in if test_dot_ident ahead \<or> test_ident_dot ahead then invalid
             else
               let found = list_ex (\<lambda>c. endsWith c (''.'' @ token)) validColumns
               in if found then invalid
                  else if aliasMap_get aliasMap token \<noteq> None then invalid
                  else set_add token invalid)"

definition validateSQLColumns :: "string \<Rightarrow> string list" where
  "validateSQLColumns sql =
     (let sqlNoStrings =
            replace_all m_dollar '' ''
              (replace_all (m_quoted (CHR 0x22)) '' ''
                 (replace_all (m_quoted (CHR 0x27)) '' '' sql 0) 0) 0;
          lowerSql = toLowerCase sqlNoStrings;
          aliasMap = fold record_table (regex_all m_table lowerSql 0) Map.empty;
          invalid = fold (check_qualified aliasMap) (regex_all m_qualified lowerSql 0) []
      in fold (check_token lowerSql aliasMap) (regex_all m_token lowerSql 0) invalid)"

section \<open>The safety check of \<open>generateValidatedSQL\<close>\<close>

text \<open>
  The part of \<open>generateValidatedSQL\<close> after the text model has answered. The argument
  is the model's answer, or nothing when the request failed. The source throws on each
  rejection, logs the message and returns \<open>null\<close>; the model keeps the reason.
\<close>

datatype sql_rejection =
    ApiError
  | UnsafeQuery
  | NotSelect
  | InvalidColumns "string list"

definition forbiddenKeywords :: "string list" where
  "forbiddenKeywords =
     [''INSERT'', ''UPDATE'', ''DELETE'', ''DROP'', ''ALTER'', ''CREATE'', ''TRUNCATE'']"

definition generateValidatedSQL :: "string option \<Rightarrow> sql_rejection + string" where
  "generateValidatedSQL response =
     (case response of
        None \<Rightarrow> Inl ApiError
      | Some text \<Rightarrow>
          let sql = trim (replace_all m_fence [] (trim text) 0)
          in if list_ex (\<lambda>keyword. includes_sub (toUpperCase sql) keyword) forbiddenKeywords
             then Inl UnsafeQuery
             else if \<not> startsWith (toUpperCase sql) ''SELECT'' then Inl NotSelect
             else
               let invalidColumns = validateSQLColumns sql
               in if length invalidColumns > 0 then Inl (InvalidColumns invalidColumns)
                  else Inr sql)"

text \<open>
  What the chatbot handler sends to the database: the generated statement when
  \<open>generateValidatedSQL\<close> returned one (\<open>if (sqlQuery)\<close>), else nothing of it.
\<close>

definition executed_sql :: "string option \<Rightarrow> string option" where
  "executed_sql response =
     (case generateValidatedSQL response of
        Inl _ \<Rightarrow> None
      | Inr sql \<Rightarrow> if sql = [] then None else Some sql)"

text \<open>
  The rule as the specification words it: the statement contains a keyword \<open>bare\<close>
  when the keyword stands in the upper-cased text as a word of its own, with a word
  boundary on each side.
\<close>

definition contains_bare_keyword :: "string \<Rightarrow> string \<Rightarrow> bool" where
  "contains_bare_keyword sql keyword =
     (let u = toUpperCase sql
      in list_ex (\<lambda>i. startsWith (drop i u) keyword \<and> boundary u i \<and>
                        boundary u (i + length keyword)) [0..<length u])"

section \<open>Reference statements\<close>

definition query_stock_by_id :: string where
  "query_stock_by_id = ''SELECT d.stock, d.name FROM drugs d WHERE d.id = 1 LIMIT 20''"

definition query_order_id :: string where
  "query_order_id = ''SELECT o.order_id FROM orders o LIMIT 20''"

definition query_created_at :: string where
  "query_created_at = ''SELECT created_at FROM orders LIMIT 20''"

section \<open>Example stores\<close>

text \<open>
  One drug (id 1, owned by user 7), one order (id 1), and the given order items and
  dispensing records. User 7 is the seller of every example item.
\<close>

definition example_drug :: "int \<Rightarrow> drug" where
  "example_drug n = \<lparr>d_id = 1, d_name = ''Paracetamol'', d_stock = n, d_created_by = 7\<rparr>"

definition example_item :: "nat \<Rightarrow> int \<Rightarrow> string \<Rightarrow> order_item" where
  "example_item i q st =
     \<lparr>oi_id = i, oi_order_id = 1, oi_drug_id = Some 1, oi_quantity = q, oi_status = st,
      oi_seller_id = 7\<rparr>"

definition example_record :: "int \<Rightarrow> dispensing" where
  "example_record q =
     \<lparr>dds_id = 1, dds_drug_id = 1, dds_quantity_dispensed = q,
      dds_dispensing_date = ''2026-01-01'', dds_category = ''OPD'', dds_notes = None,
      dds_recorded_by = 7\<rparr>"

definition example_body :: "int \<Rightarrow> dispensing_body" where
  "example_body q =
     \<lparr>b_drug_id = 1, b_quantity_dispensed = q, b_dispensing_date = None, b_category = None,
      b_notes = None\<rparr>"

definition example_store :: "int \<Rightarrow> order_item list \<Rightarrow> dispensing list \<Rightarrow> db" where
  "example_store n its ds =
     \<lparr>drugs = [example_drug n], orders = [\<lparr>o_id = 1, o_recipient_id = None\<rparr>],
      order_items = its, daily_dispensing_summary = ds\<rparr>"

section \<open>Facts about the statements\<close>

lemmas example_defs =
  example_drug_def example_item_def example_record_def example_body_def example_store_def





lemma drugs_of_sub_stock:
  "drugs (drugs_sub_stock n k s) =
     map (\<lambda>d. if d_id d = k then d\<lparr>d_stock := d_stock d - n\<rparr> else d) (drugs s)"
  by (simp add: drugs_sub_stock_def)


lemma untouched_tables [simp]:
  "drugs (order_items_set_quantity q i s) = drugs s"
  "drugs (order_items_set_status st i s) = drugs s"
  "order_items (drugs_sub_stock n k s) = order_items s"
  "order_items (drugs_add_stock n k s) = order_items s"
  by (simp_all add: order_items_set_quantity_def order_items_set_status_def
        drugs_sub_stock_def drugs_add_stock_def)









section \<open>Bulk approval: stock and accounting\<close>

text \<open>
  C1. After a bulk approve-all a drug's stock is still non-negative, also when two
  pending items of the order reference the same drug. The handler breaks this: both
  items are checked against the stock the locking query read, so with stock 10 and two
  pending items of 6 units each (and no update throwing) both are approved and the
  stock ends at -2.
\<close>

theorem approveAllItems_same_drug_twice:
  "approveAllItems (\<lambda>i. NoFault)
     (example_store 10 [example_item 1 6 ''pending'', example_item 2 6 ''pending''] []) 7 1
   = (BulkApproved 2 [] 2,
      example_store (- 2) [example_item 1 6 ''approved'', example_item 2 6 ''approved''] [])"
  by (simp add: approveAllItems_def select_pending_def recipient_of_def drugs_sub_stock_def
        order_items_set_status_def example_defs)

text \<open>
  C4. When the locking query finds at least one pending item, the answer satisfies
  \<open>approvedCount + length insufficientStockItems = totalItems\<close>, every row is counted
  in exactly one of the two, and an item's stock is decremented if and only if the item
  was counted in \<open>approvedCount\<close>. The handler breaks the last part when the database
  refuses an update inside the loop. With stock 10 and two pending items of 4 and 3
  units, let the stock update of the second item throw. The loop's \<open>catch\<close> block
  lists the second item and the answer counts the first one (\<open>approvedCount\<close> 1 of 2),
  but the transaction is aborted and \<open>COMMIT\<close> rolls it back: the first item is still
  pending and the stock is still 10, so a counted item took no stock.
\<close>

theorem approveAllItems_error_counts_rolled_back_item:
  "approveAllItems (\<lambda>i. if i = 2 then StockUpdateThrows else NoFault)
     (example_store 10 [example_item 1 4 ''pending'', example_item 2 3 ''pending''] []) 7 1
   = (BulkApproved 1
        [\<lparr>ins_drug_name = ''Paracetamol'', ins_requested = 3, ins_available = 10,
          ins_reason = ''Database error during approval''\<rparr>] 2,
      example_store 10 [example_item 1 4 ''pending'', example_item 2 3 ''pending''] [])"
  by (simp add: approveAllItems_def select_pending_def recipient_of_def example_defs)

text \<open>
  When no statement throws, the accounting holds: the counted rows are the rows
  whose stock field covers the quantity, the others are listed in order, and each
  drug's stock goes down by exactly the quantities of the counted rows that reference
  it.
\<close>

lemma approve_loop_no_fault:
  "approve_loop (\<lambda>i. NoFault) rows (s, False, n, ins) = (s', aborted, n', ins') \<Longrightarrow>
     \<not> aborted \<and>
     n' = n + length (filter sufficient rows) \<and>
     ins' = ins @ map insufficient_of (filter (\<lambda>r. \<not> sufficient r) rows) \<and>
     map d_stock (drugs s') = map (\<lambda>d. d_stock d - approved_quantity rows (d_id d)) (drugs s) \<and>
     map d_id (drugs s') = map d_id (drugs s)"
proof (induction rows arbitrary: s n ins)
  case Nil
  then show ?case by (simp add: approved_quantity_def)
next
  case (Cons item rest)
  show ?case
  proof (cases "sufficient item")
    case True
    let ?mid = "drugs_sub_stock (pr_quantity item) (pr_drug_id item)
                  (order_items_set_status ''approved'' (pr_id item) s)"
    from Cons.prems True
    have "approve_loop (\<lambda>i. NoFault) rest (?mid, False, n + 1, ins) = (s', aborted, n', ins')"
      by (simp add: Let_def sufficient_def)
    from Cons.IH[OF this]
    have ab: "\<not> aborted" and c: "n' = n + 1 + length (filter sufficient rest)"
      and i: "ins' = ins @ map insufficient_of (filter (\<lambda>r. \<not> sufficient r) rest)"
      and st: "map d_stock (drugs s') =
                 map (\<lambda>d. d_stock d - approved_quantity rest (d_id d)) (drugs ?mid)"
      and ids: "map d_id (drugs s') = map d_id (drugs ?mid)" by simp_all
    have "map d_id (drugs ?mid) = map d_id (drugs s)"
      by (simp add: drugs_of_sub_stock comp_def)
    moreover have "map (\<lambda>d. d_stock d - approved_quantity rest (d_id d)) (drugs ?mid)
        = map (\<lambda>d. d_stock d - approved_quantity (item # rest) (d_id d)) (drugs s)"
      using True by (auto simp: drugs_of_sub_stock approved_quantity_def)
    ultimately show ?thesis using ab c i st ids True by simp
  next
    case False
    from Cons.prems False
    have "approve_loop (\<lambda>i. NoFault) rest (s, False, n, ins @ [insufficient_of item])
            = (s', aborted, n', ins')"
      by (simp add: Let_def sufficient_def insufficient_of_def)
    from Cons.IH[OF this] False show ?thesis
      by (simp add: approved_quantity_def)
  qed
qed

lemma approveAllItems_accounting_no_fault:
  assumes "rows = select_pending s orderId sellerId"
      and "rows \<noteq> []"
      and "R = approveAllItems (\<lambda>i. NoFault) s sellerId orderId"
  shows "\<exists>approvedCount insufficientStockItems.
           fst R = BulkApproved approvedCount insufficientStockItems (length rows)
         \<and> approvedCount + length insufficientStockItems = length rows
         \<and> approvedCount = length (filter sufficient rows)
         \<and> insufficientStockItems = map insufficient_of (filter (\<lambda>r. \<not> sufficient r) rows)
         \<and> map d_stock (drugs (snd R))
             = map (\<lambda>d. d_stock d - approved_quantity rows (d_id d)) (drugs s)"
proof -
  obtain s' ab n ins where
    l: "approve_loop (\<lambda>i. NoFault) rows (s, False, 0, []) = (s', ab, n, ins)"
    by (cases "approve_loop (\<lambda>i. NoFault) rows (s, False, 0, [])") auto
  from approve_loop_no_fault[OF l]
  have ab: "\<not> ab" and c: "n = length (filter sufficient rows)"
    and i: "ins = map insufficient_of (filter (\<lambda>r. \<not> sufficient r) rows)"
    and d: "map d_stock (drugs s') =
              map (\<lambda>d. d_stock d - approved_quantity rows (d_id d)) (drugs s)"
    by simp_all
  have "n + length ins = length rows"
    unfolding c i by (simp add: sum_length_filter_compl)
  moreover have "R = (BulkApproved n ins (length rows), s')"
    using assms l ab by (simp add: approveAllItems_def Let_def)
  ultimately show ?thesis using c i d by simp
qed

section \<open>Single order-item update: status and quantity\<close>

text \<open>
  C2. An update call on an item whose status is \<open>rejected\<close> or \<open>shipped\<close> leaves the
  status unchanged and touches no stock: the state machine admits no transition out of
  these two states. The handler breaks this: it writes any status it is given. On a
  rejected item with 10 units in stock and a stored quantity of 10, a request for
  \<open>approved\<close> is answered with success, the item becomes approved and the stock drops
  to 0. On a shipped item of 4 units the same request takes 4 units a second time.
\<close>

theorem rejected_item_can_be_approved:
  "updateOrderItemStatus (example_store 10 [example_item 1 10 ''rejected''] []) 7 1
     (Some ''approved'') None
   = (ItemUpdated, example_store 0 [example_item 1 10 ''approved''] [])
   \<and> updateOrderItemStatus (example_store 6 [example_item 1 4 ''shipped''] []) 7 1
     (Some ''approved'') None
   = (ItemUpdated, example_store 2 [example_item 1 4 ''approved''] [])"
  by (simp add: updateOrderItemStatus_def select_item_def stock_of_def truthy_number_def
        truthy_string_def truthy_id_def stock_lt_def drugs_sub_stock_def
        order_items_set_status_def example_defs)










section \<open>Daily dispensing: resubmission and quantities\<close>

text \<open>
  C5 as stated fails. The availability check compares the stock that is left with the
  full quantity before the handler looks for an existing record: with 2 units left and
  today's record of 8 units, submitting 8 again is refused.
\<close>

theorem resubmit_refused_when_stock_is_low:
  "recordDailyDispensing (example_store 2 [] [example_record 8]) 7 ''2026-01-01'' (example_body 8)
   = (InsufficientStockToDispense 2 8, example_store 2 [] [example_record 8])"
  by (simp add: recordDailyDispensing_def existing_record_def category_or_opd_def
        truthy_string_def example_defs)

text \<open>
  C5, amended. When a record for (drug, today, category) exists with quantity \<open>q\<close>,
  submitting \<open>q\<close> again for the caller's own drug never changes a drug row, so the
  stock is unchanged (the difference is 0). The call succeeds as an update when the
  stock that is left is at least \<open>q\<close> and not negative; when the stock is below \<open>q\<close> it
  is refused for insufficient stock and the store is unchanged.
\<close>

theorem resubmit_same_quantity:
  assumes "(case truthy_string (b_dispensing_date body) of None \<Rightarrow> currentDate | Some d \<Rightarrow> d)
             = currentDate"
      and "find (\<lambda>d. d_id d = b_drug_id body \<and> d_created_by d = userId) (drugs s) = Some drug"
      and "existing_record s (b_drug_id body) currentDate (category_or_opd (b_category body))
             = Some existing"
      and "dds_quantity_dispensed existing = b_quantity_dispensed body"
      and "R = recordDailyDispensing s userId currentDate body"
  shows "drugs (snd R) = drugs s
       \<and> (b_quantity_dispensed body \<le> d_stock drug \<and> 0 \<le> d_stock drug \<longrightarrow>
            (\<exists>row st. fst R = DispensingUpdated row st))
       \<and> (d_stock drug < b_quantity_dispensed body \<longrightarrow>
            R = (InsufficientStockToDispense (d_stock drug) (b_quantity_dispensed body), s))"
  using assms
  by (auto simp: recordDailyDispensing_def Let_def drugs_of_sub_stock map_idI)

text \<open>
  The amended C5 at 9 units left and today's record of 8 units: submitting 8 again is
  answered as an update and the stock stays at 9.
\<close>

theorem resubmit_same_quantity_witness:
  "find (\<lambda>d. d_id d = 1 \<and> d_created_by d = 7)
        (drugs (example_store 9 [] [example_record 8])) = Some (example_drug 9)
   \<and> existing_record (example_store 9 [] [example_record 8]) 1 ''2026-01-01'' ''OPD''
       = Some (example_record 8)
   \<and> drugs (snd (recordDailyDispensing (example_store 9 [] [example_record 8]) 7
                  ''2026-01-01'' (example_body 8))) = [example_drug 9]
   \<and> (\<exists>row st. fst (recordDailyDispensing (example_store 9 [] [example_record 8]) 7
                  ''2026-01-01'' (example_body 8)) = DispensingUpdated row st)"
proof -
  let ?s = "example_store 9 [] [example_record 8]"
  have dt: "(case truthy_string (b_dispensing_date (example_body 8)) of
               None \<Rightarrow> ''2026-01-01'' | Some d \<Rightarrow> d) = ''2026-01-01''"
    by (simp add: truthy_string_def example_defs)
  have dr: "find (\<lambda>d. d_id d = b_drug_id (example_body 8) \<and> d_created_by d = 7) (drugs ?s)
              = Some (example_drug 9)"
    by (simp add: example_defs)
  have ex: "existing_record ?s (b_drug_id (example_body 8)) ''2026-01-01''
              (category_or_opd (b_category (example_body 8))) = Some (example_record 8)"
    by (simp add: existing_record_def category_or_opd_def truthy_string_def example_defs)
  have q: "dds_quantity_dispensed (example_record 8) = b_quantity_dispensed (example_body 8)"
    by (simp add: example_defs)
  from resubmit_same_quantity[OF dt dr ex q refl] dr ex
  show ?thesis by (simp add: example_defs category_or_opd_def truthy_string_def)
qed

text \<open>
  C7. Every call of the recorder with a non-positive quantity is rejected and changes
  neither a summary row nor the stock. The handler breaks this: it never tests the sign
  of the quantity, so -5 passes the availability check (10 is not below -5), a record
  of -5 units is inserted and the stock rises from 10 to 15.
\<close>

theorem negative_dispensing_is_recorded:
  "recordDailyDispensing (example_store 10 [] []) 7 ''2026-01-01'' (example_body (- 5))
   = (DispensingRecorded (Some (example_record (- 5))) (Some 15),
      example_store 15 [] [example_record (- 5)])"
  by (simp add: recordDailyDispensing_def existing_record_def category_or_opd_def
        truthy_string_def next_dds_id_def drugs_sub_stock_def stock_of_def Let_def
        example_defs)

section \<open>Generated SQL: the reference statements\<close>

text \<open>The listed names are lower case already; evaluation uses the list as it is.\<close>

lemma validColumns_code [code]: "validColumns = validColumns_listed"
  by (simp add: validColumns_def validColumns_listed_def toLowerCase_def to_lower_def
        is_upper_def)

lemma validate_stock_by_id: "validateSQLColumns query_stock_by_id = []"
  by code_simp

lemma validate_order_id: "validateSQLColumns query_order_id = [''o.order_id'']"
  by code_simp

lemma generate_stock_by_id: "generateValidatedSQL (Some query_stock_by_id) = Inr query_stock_by_id"
proof -
  have t: "trim (replace_all m_fence [] (trim query_stock_by_id) 0) = query_stock_by_id"
    by code_simp
  have k: "\<not> list_ex (\<lambda>keyword. includes_sub (toUpperCase query_stock_by_id) keyword)
              forbiddenKeywords"
    by code_simp
  have s: "startsWith (toUpperCase query_stock_by_id) ''SELECT''"
    by code_simp
  show ?thesis
    unfolding generateValidatedSQL_def option.case Let_def t
    using k s by (simp add: validate_stock_by_id)
qed

lemma generate_order_id:
  "generateValidatedSQL (Some query_order_id) = Inl (InvalidColumns [''o.order_id''])"
proof -
  have t: "trim (replace_all m_fence [] (trim query_order_id) 0) = query_order_id"
    by code_simp
  have k: "\<not> list_ex (\<lambda>keyword. includes_sub (toUpperCase query_order_id) keyword)
              forbiddenKeywords"
    by code_simp
  have s: "startsWith (toUpperCase query_order_id) ''SELECT''"
    by code_simp
  show ?thesis
    unfolding generateValidatedSQL_def option.case Let_def t
    using k s by (simp add: validate_order_id)
qed

lemma generate_drop_table: "generateValidatedSQL (Some ''DROP TABLE drugs'') = Inl UnsafeQuery"
  by code_simp

text \<open>
  C9. On the three reference inputs: the column validator returns no invalid token for
  \<open>SELECT d.stock, d.name FROM drugs d WHERE d.id = 1 LIMIT 20\<close>, and the statement
  passes \<open>generateValidatedSQL\<close> unchanged; for
  \<open>SELECT o.order_id FROM orders o LIMIT 20\<close> the validator flags exactly
  \<open>o.order_id\<close> and the statement is rejected for it; \<open>DROP TABLE drugs\<close> is rejected by
  the keyword check, and nothing of it is sent to the database.
\<close>

theorem reference_statements:
  "validateSQLColumns query_stock_by_id = []
   \<and> generateValidatedSQL (Some query_stock_by_id) = Inr query_stock_by_id
   \<and> validateSQLColumns query_order_id = [''o.order_id'']
   \<and> generateValidatedSQL (Some query_order_id) = Inl (InvalidColumns [''o.order_id''])
   \<and> generateValidatedSQL (Some ''DROP TABLE drugs'') = Inl UnsafeQuery
   \<and> executed_sql (Some ''DROP TABLE drugs'') = None"
  by (simp add: validate_stock_by_id generate_stock_by_id validate_order_id generate_order_id
        generate_drop_table executed_sql_def)

lemma created_at_no_bare_keyword:
  "\<not> list_ex (contains_bare_keyword query_created_at) forbiddenKeywords"
  by code_simp

lemma created_at_starts_with_select: "startsWith (toUpperCase query_created_at) ''SELECT''"
  by code_simp

lemma created_at_columns_valid: "validateSQLColumns query_created_at = []"
  by code_simp

lemma created_at_rejected: "generateValidatedSQL (Some query_created_at) = Inl UnsafeQuery"
  by code_simp

text \<open>
  C8. A statement that is one \<open>SELECT\<close> and contains no forbidden keyword as a bare
  keyword is not rejected by the keyword rule, also when a keyword occurs inside a
  longer identifier. The check breaks this: it looks for each keyword as a substring of
  the upper-cased text. \<open>SELECT created_at FROM orders LIMIT 20\<close> starts with
  \<open>SELECT\<close>, has no bare forbidden keyword and only valid columns, and is rejected as
  unsafe because \<open>CREATED_AT\<close> contains \<open>CREATE\<close>.
\<close>

theorem created_at_rejected_as_unsafe:
  "startsWith (toUpperCase query_created_at) ''SELECT''
   \<and> \<not> list_ex (contains_bare_keyword query_created_at) forbiddenKeywords
   \<and> validateSQLColumns query_created_at = []
   \<and> includes_sub (toUpperCase query_created_at) ''CREATE''
   \<and> generateValidatedSQL (Some query_created_at) = Inl UnsafeQuery"
proof -
  have "includes_sub (toUpperCase query_created_at) ''CREATE''"
    by code_simp
  then show ?thesis
    by (simp add: created_at_no_bare_keyword created_at_starts_with_select
          created_at_columns_valid created_at_rejected)
qed


end
